theory Spec2Isabelle
  imports Complex_Main "HOL-Library.Sublist"
begin

section \<open>Data model\<close>

text \<open>
  The guarded analysis pipeline of the agent vertical: \<^verbatim>\<open>AgentService.analyze\<close>
  (agent.service.ts) and the circuit breaker wrapper \<^verbatim>\<open>CircuitBreakerProvider\<close>
  (resilience/circuit-breaker.provider.ts).

  JavaScript values that may be \<^verbatim>\<open>undefined\<close> are options, \<open>None\<close> being
  \<^verbatim>\<open>undefined\<close>. A thrown value is an \<open>error\<close>; a call that may throw or reject
  returns \<open>error + 'a\<close> with \<open>Inl\<close> the thrown value.
\<close>

datatype error =
    Error "string option"        \<comment> \<open>\<^verbatim>\<open>new Error(message)\<close>, the plain built-in error\<close>
  | TypeError string             \<comment> \<open>raised by the runtime on a property read of \<^verbatim>\<open>undefined\<close>\<close>
  | HttpException nat string     \<comment> \<open>a framework exception that carries its own HTTP status\<close>

record AnalyzeRequest =
  question :: string
  locationId :: "string option"
  limit :: "int option"

text \<open>
  Modelled from the spec: the declaration of \<^verbatim>\<open>AuthenticatedUser\<close> (shared/auth) is not
  among the sources; the spec gives the identity as \<^verbatim>\<open>{id, role, tenantId, tenantType}\<close>
  and \<^verbatim>\<open>analyze\<close> reads \<^verbatim>\<open>user.userId\<close>.
\<close>

record AuthenticatedUser =
  userId :: string
  role :: string
  tenantId :: string
  tenantType :: string

record LLMAnalysisResult =
  summary :: string
  confidence :: string
  reasoning :: "string option"

record DataPoints =
  membersAnalyzed :: nat
  locationsAnalyzed :: nat

record Insight =
  question :: string
  summary :: string
  confidence :: string
  reasoning :: "string option"
  dataPoints :: DataPoints
  generatedAt :: string
  provider :: string

record PreProcessResult =
  allowed :: bool
  sanitizedQuestion :: "string option"
  error :: "string option"

record PostProcessResult =
  valid :: bool
  response :: "LLMAnalysisResult option"

record GroundingResult =
  grounded :: bool
  score :: real
  reason :: "string option"

text \<open>
  The collaborators injected into the service. \<^verbatim>\<open>analyze\<close> calls each of them at most
  once per request, so within one run a collaborator is the function from its arguments
  to the outcome of that call. The calls made inside the \<^verbatim>\<open>try\<close> block may throw or
  reject; \<^verbatim>\<open>getName\<close>, \<^verbatim>\<open>preProcess\<close> and \<^verbatim>\<open>handleError\<close> return values, as their
  contracts in the spec say.
\<close>

record LLMProvider =
  getName :: string
  analyze :: "string option \<Rightarrow> string \<Rightarrow> string option \<Rightarrow> error + LLMAnalysisResult"

record GuardrailsService =
  preProcess :: "string \<Rightarrow> string \<Rightarrow> PreProcessResult"
  postProcess :: "LLMAnalysisResult \<Rightarrow> string \<Rightarrow> error + PostProcessResult"
  handleError :: "error \<Rightarrow> string \<Rightarrow> LLMAnalysisResult"

text \<open>
  A search hit is \<^verbatim>\<open>unknown\<close> to the service, which casts it to
  \<^verbatim>\<open>{ status_notes?: string }\<close> or \<^verbatim>\<open>{ region?: string }\<close> and serialises it with
  \<^verbatim>\<open>JSON.stringify\<close>. The hit type \<open>'r\<close> stays abstract; the two property reads and
  the two uses of \<^verbatim>\<open>JSON.stringify\<close> (on a record of counts, whose keys are kept in
  insertion order, and on an array of hits) are functions of the runtime.
\<close>

record 'r Runtime =
  status_notes :: "'r \<Rightarrow> string option"
  region :: "'r \<Rightarrow> string option"
  stringifyCounts :: "(string \<times> nat) list \<Rightarrow> string"
  stringifyRecords :: "'r list \<Rightarrow> string"
  now :: string                  \<comment> \<open>\<^verbatim>\<open>new Date().toISOString()\<close> when the Insight is built\<close>

record 'r AgentService =
  llmProvider :: LLMProvider
  membershipSearch :: "int \<Rightarrow> AuthenticatedUser \<Rightarrow> error + 'r list"
  locationsSearch :: "int \<Rightarrow> AuthenticatedUser \<Rightarrow> error + 'r list"
  redactionService :: "string \<Rightarrow> error + string"
  guardrails :: GuardrailsService
  grounding :: "string \<Rightarrow> string \<Rightarrow> error + GroundingResult"
  runtime :: "'r Runtime"
  locationsSettleFirst :: bool   \<comment> \<open>which search settles first when both reject\<close>

text \<open>What a run does besides returning: the calls, counters and log lines, in order.\<close>

datatype event =
    TimerStart
  | TimerStop
  | GetNameCall
  | PreProcessCall string string
  | GuardrailsCounter string string
  | MembershipSearchCall int AuthenticatedUser
  | LocationsSearchCall int AuthenticatedUser
  | RedactCall string
  | ProviderAnalyzeCall "string option" string "string option"
  | GroundingCall string string
  | GroundingCounter string
  | GroundingWarn real "string option"
  | PostProcessCall LLMAnalysisResult string
  | AnalysisCounter string string
  | AnalysisCompletedLog "string option" nat nat string string
  | AnalysisFailedLog error "string option"
  | HandleErrorCall error string

section \<open>Building the context\<close>

text \<open>\<^verbatim>\<open>x || d\<close> on an optional number: \<^verbatim>\<open>undefined\<close> and \<open>0\<close> are falsy.\<close>

definition or_default :: "int option \<Rightarrow> int \<Rightarrow> int" where
  "or_default x d = (case x of None \<Rightarrow> d | Some n \<Rightarrow> if n = 0 then d else n)"

text \<open>\<^verbatim>\<open>s || d\<close> on an optional string: \<^verbatim>\<open>undefined\<close> and the empty string are falsy.\<close>

definition or_default_str :: "string option \<Rightarrow> string \<Rightarrow> string" where
  "or_default_str x d = (case x of None \<Rightarrow> d | Some s \<Rightarrow> if s = [] then d else s)"

text \<open>The decimal numeral a template literal prints for an array length.\<close>

definition digit_char :: "nat \<Rightarrow> char" where
  "digit_char d = ''0123456789'' ! d"

function number_to_string :: "nat \<Rightarrow> string" where
  "number_to_string n =
     (if n < 10 then [digit_char n] else number_to_string (n div 10) @ [digit_char (n mod 10)])"
  by pat_completeness auto
termination
  by (relation "measure id") auto

declare number_to_string.simps [simp del]

text \<open>
  \<^verbatim>\<open>byStatus[k] = (byStatus[k] || 0) + 1\<close>: a new key is appended, a known one counted
  up. (A key that names a property every object inherits, such as \<^verbatim>\<open>constructor\<close>, is
  not counted this way by the runtime; such keys are outside this model.)
\<close>

fun bump :: "(string \<times> nat) list \<Rightarrow> string \<Rightarrow> (string \<times> nat) list" where
  "bump [] k = [(k, 1)]"
| "bump ((k', c) # kvs) k = (if k' = k then (k', c + 1) # kvs else (k', c) # bump kvs k)"

text \<open>\<^verbatim>\<open>s.split(' ')[0]\<close>: the text before the first space.\<close>

definition first_word :: "string \<Rightarrow> string" where
  "first_word s = takeWhile (\<lambda>c. c \<noteq> CHR '' '') s"

definition nl :: string where
  "nl = [CHR 0x0A]"

definition summarizeMembers :: "'r Runtime \<Rightarrow> 'r list \<Rightarrow> string" where
  "summarizeMembers rt members =
     (if length members = 0 then ''No membership records found.''
      else
        let byStatus =
              foldl (\<lambda>acc m. bump acc (or_default_str (map_option first_word (status_notes rt m)) ''unknown''))
                [] members
        in ''Status distribution: '' @ stringifyCounts rt byStatus @ nl @
           ''Sample records: '' @ stringifyRecords rt (take 5 members))"

definition summarizeLocations :: "'r Runtime \<Rightarrow> 'r list \<Rightarrow> string" where
  "summarizeLocations rt locations =
     (if length locations = 0 then ''No location records found.''
      else
        let byRegion =
              foldl (\<lambda>acc l. bump acc (or_default_str (region rt l) ''unknown'')) [] locations
        in ''Region distribution: '' @ stringifyCounts rt byRegion @ nl @
           ''Sample records: '' @ stringifyRecords rt (take 3 locations))"

definition buildContext :: "'r Runtime \<Rightarrow> 'r list \<Rightarrow> 'r list \<Rightarrow> AnalyzeRequest \<Rightarrow> string" where
  "buildContext rt members locations request =
     (let memberSummary = summarizeMembers rt members;
          locationSummary = summarizeLocations rt locations
      in nl @ ''MEMBERSHIP DATA ('' @ number_to_string (length members) @ '' records):'' @ nl @
         memberSummary @ nl @
         nl @
         ''LOCATION DATA ('' @ number_to_string (length locations) @ '' records):'' @ nl @
         locationSummary @ nl @
         nl @
         (case locationId request of
            None \<Rightarrow> []
          | Some l \<Rightarrow> if l = [] then [] else ''FOCUS: Location ID '' @ l) @ nl)"

section \<open>AgentService.analyze\<close>

text \<open>
  \<^verbatim>\<open>await Promise.all([a, b])\<close>: both calls have been made; the result is the pair of
  values, or the rejection of the promise that rejects first. The two searches are
  asynchronous, so a failing search is a rejected promise and the other search is still
  started.
\<close>

definition promise_all :: "bool \<Rightarrow> error + 'a \<Rightarrow> error + 'b \<Rightarrow> error + ('a \<times> 'b)" where
  "promise_all secondFirst a b =
     (case a of
        Inr x \<Rightarrow> (case b of Inr y \<Rightarrow> Inr (x, y) | Inl e \<Rightarrow> Inl e)
      | Inl e1 \<Rightarrow> (case b of Inr y \<Rightarrow> Inl e1 | Inl e2 \<Rightarrow> Inl (if secondFirst then e2 else e1)))"

text \<open>
  The body of the \<^verbatim>\<open>try\<close> block (steps 1 to 6 and the \<^verbatim>\<open>return\<close>): the Insight it
  returns or the value it throws, with the events up to that point.
\<close>

definition analyze_try ::
  "'r AgentService \<Rightarrow> AnalyzeRequest \<Rightarrow> AuthenticatedUser \<Rightarrow> string option \<Rightarrow> string \<Rightarrow>
     (error + Insight) \<times> event list" where
  "analyze_try svc request user sanitized providerName =
     (let membersLimit = or_default (limit request) 100;
          locationsLimit = or_default (limit request) 50;
          t1 = [MembershipSearchCall membersLimit user, LocationsSearchCall locationsLimit user]
      in case promise_all (locationsSettleFirst svc)
                (membershipSearch svc membersLimit user) (locationsSearch svc locationsLimit user) of
           Inl e \<Rightarrow> (Inl e, t1)
         | Inr (members, locations) \<Rightarrow>
             let context = buildContext (runtime svc) members locations request;
                 t2 = t1 @ [RedactCall context]
             in (case redactionService svc context of
                   Inl e \<Rightarrow> (Inl e, t2)
                 | Inr redactedContext \<Rightarrow>
                     let t3 = t2 @ [ProviderAnalyzeCall sanitized redactedContext None]
                     in (case analyze (llmProvider svc) sanitized redactedContext None of
                           Inl e \<Rightarrow> (Inl e, t3)
                         | Inr llmResult \<Rightarrow>
                             let t4 = t3 @ [GroundingCall redactedContext (LLMAnalysisResult.summary llmResult)]
                             in (case grounding svc redactedContext (LLMAnalysisResult.summary llmResult) of
                                   Inl e \<Rightarrow> (Inl e, t4)
                                 | Inr groundingResult \<Rightarrow>
                                     let t5 = t4 @
                                           (if \<not> grounded groundingResult
                                            then [GroundingCounter ''ungrounded'',
                                                  GroundingWarn (score groundingResult) (reason groundingResult)]
                                            else [GroundingCounter ''grounded'']) @
                                           [PostProcessCall llmResult (userId user)]
                                     in (case postProcess (guardrails svc) llmResult (userId user) of
                                           Inl e \<Rightarrow> (Inl e, t5)
                                         | Inr postResult \<Rightarrow>
                                             let t6 = t5 @
                                                   [GuardrailsCounter ''output''
                                                      (if \<not> valid postResult then ''fallback'' else ''passed''),
                                                    AnalysisCounter providerName ''success'']
                                             in (case response postResult of
                                                   None \<Rightarrow>
                                                     (Inl (TypeError
                                                        ''Cannot read properties of undefined (reading 'confidence')''),
                                                      t6)
                                                 | Some result \<Rightarrow>
                                                     (Inr \<lparr>question = AnalyzeRequest.question request,
                                                           summary = LLMAnalysisResult.summary result,
                                                           confidence = LLMAnalysisResult.confidence result,
                                                           reasoning = LLMAnalysisResult.reasoning result,
                                                           dataPoints =
                                                             \<lparr>membersAnalyzed = length members,
                                                              locationsAnalyzed = length locations\<rparr>,
                                                           generatedAt = now (runtime svc),
                                                           provider = providerName\<rparr>,
                                                      t6 @ [AnalysisCompletedLog sanitized
                                                              (length members) (length locations) providerName
                                                              (LLMAnalysisResult.confidence result)])))))))"

text \<open>The Insight the \<^verbatim>\<open>catch\<close> block builds from the guardrails' fallback.\<close>

definition fallback_insight ::
  "'r AgentService \<Rightarrow> AnalyzeRequest \<Rightarrow> AuthenticatedUser \<Rightarrow> error \<Rightarrow> Insight" where
  "fallback_insight svc request user e =
     (let fallback = handleError (guardrails svc) e (userId user)
      in \<lparr>question = AnalyzeRequest.question request,
          summary = LLMAnalysisResult.summary fallback,
          confidence = LLMAnalysisResult.confidence fallback,
          reasoning = LLMAnalysisResult.reasoning fallback,
          dataPoints = \<lparr>membersAnalyzed = 0, locationsAnalyzed = 0\<rparr>,
          generatedAt = now (runtime svc),
          provider = getName (llmProvider svc)\<rparr>)"

text \<open>
  \<^verbatim>\<open>analyze(request, user)\<close>. A rejected question throws before the \<^verbatim>\<open>try\<close>, so
  neither \<^verbatim>\<open>catch\<close> nor \<^verbatim>\<open>finally\<close> sees it and the timer is not stopped. The
  non-null assertion on \<^verbatim>\<open>preResult.sanitizedQuestion\<close> does nothing at run time: the
  provider is called with whatever \<^verbatim>\<open>preProcess\<close> returned in that field.
\<close>

definition AgentService_analyze ::
  "'r AgentService \<Rightarrow> AnalyzeRequest \<Rightarrow> AuthenticatedUser \<Rightarrow> (error + Insight) \<times> event list" where
  "AgentService_analyze svc request user =
     (let providerName = getName (llmProvider svc);
          uid = userId user;
          preResult = preProcess (guardrails svc) (AnalyzeRequest.question request) uid;
          t0 = [TimerStart, GetNameCall, PreProcessCall (AnalyzeRequest.question request) uid]
      in if \<not> allowed preResult
         then (Inl (Error (error preResult)), t0 @ [GuardrailsCounter ''input'' ''blocked''])
         else
           let sanitized = PreProcessResult.sanitizedQuestion preResult;
               t1 = t0 @ [GuardrailsCounter ''input'' ''allowed'']
           in (case analyze_try svc request user sanitized providerName of
                 (Inr insight, t) \<Rightarrow> (Inr insight, t1 @ t @ [TimerStop])
               | (Inl e, t) \<Rightarrow>
                   (Inr (fallback_insight svc request user e),
                    t1 @ t @
                    [AnalysisCounter providerName ''error'',
                     AnalysisFailedLog e sanitized,
                     HandleErrorCall e uid,
                     TimerStop])))"

text \<open>
  Modelled from the spec: \<^verbatim>\<open>AgentController\<close> and the framework's exception filter are
  not among the sources. The end-to-end tests expect status 201 for a returned Insight and
  500 for a question the guardrails reject (``500 from thrown error''); an exception that
  carries a status of its own is answered with that status.
\<close>

definition http_status :: "error + Insight \<Rightarrow> nat" where
  "http_status r =
     (case r of
        Inr insight \<Rightarrow> 201
      | Inl (HttpException st msg) \<Rightarrow> st
      | Inl (Error msg) \<Rightarrow> 500
      | Inl (TypeError msg) \<Rightarrow> 500)"

text \<open>
  Modelled from the spec: \<^verbatim>\<open>OutputValidator.validate\<close> and
  \<^verbatim>\<open>GuardrailsService.postProcess\<close> (agent/guardrails) are not among the sources.
  The validator checks a non-empty summary, a minimum summary length and that the
  confidence is one of the three recognised levels; \<^verbatim>\<open>postProcess\<close> hands a valid
  result on and replaces an invalid one by a generic low-confidence fallback.
\<close>

definition OutputValidator_validate :: "nat \<Rightarrow> LLMAnalysisResult \<Rightarrow> bool" where
  "OutputValidator_validate minLength r \<longleftrightarrow>
     LLMAnalysisResult.summary r \<noteq> [] \<and>
     minLength \<le> length (LLMAnalysisResult.summary r) \<and>
     LLMAnalysisResult.confidence r \<in> {''high'', ''medium'', ''low''}"

definition GuardrailsService_postProcess ::
  "nat \<Rightarrow> string \<Rightarrow> LLMAnalysisResult \<Rightarrow> string \<Rightarrow> PostProcessResult" where
  "GuardrailsService_postProcess minLength fallbackSummary r uid =
     (if OutputValidator_validate minLength r
      then \<lparr>valid = True, response = Some r\<rparr>
      else \<lparr>valid = False,
            response =
              Some \<lparr>LLMAnalysisResult.summary = fallbackSummary,
                    LLMAnalysisResult.confidence = ''low'',
                    LLMAnalysisResult.reasoning = None\<rparr>\<rparr>)"

section \<open>CircuitBreakerProvider\<close>

text \<open>
  A property of the options object handed to the constructor is absent, present with the
  value \<^verbatim>\<open>undefined\<close> (which the optional type admits), or present with a number.
\<close>

datatype optional_number = Absent | Undefined | Value int

record CircuitBreakerOptions =
  timeout :: optional_number
  errorThresholdPercentage :: optional_number
  resetTimeout :: optional_number
  volumeThreshold :: optional_number

text \<open>The options object the library receives; \<open>None\<close> is \<^verbatim>\<open>undefined\<close>.\<close>

record Options =
  timeout :: "int option"
  errorThresholdPercentage :: "int option"
  resetTimeout :: "int option"
  volumeThreshold :: "int option"

definition defaults :: Options where
  "defaults =
     \<lparr>timeout = Some 30000,
      errorThresholdPercentage = Some 50,
      resetTimeout = Some 30000,
      volumeThreshold = Some 3\<rparr>"

text \<open>One property of \<^verbatim>\<open>{ ...defaults, ...options }\<close>: an own property of \<^verbatim>\<open>options\<close> wins.\<close>

definition spread_property :: "int option \<Rightarrow> optional_number \<Rightarrow> int option" where
  "spread_property d p = (case p of Absent \<Rightarrow> d | Undefined \<Rightarrow> None | Value v \<Rightarrow> Some v)"

definition spread_options :: "Options \<Rightarrow> CircuitBreakerOptions option \<Rightarrow> Options" where
  "spread_options d options =
     (case options of
        None \<Rightarrow> d
      | Some opts \<Rightarrow>
          \<lparr>timeout = spread_property (Options.timeout d) (CircuitBreakerOptions.timeout opts),
           errorThresholdPercentage =
             spread_property (Options.errorThresholdPercentage d)
               (CircuitBreakerOptions.errorThresholdPercentage opts),
           resetTimeout =
             spread_property (Options.resetTimeout d) (CircuitBreakerOptions.resetTimeout opts),
           volumeThreshold =
             spread_property (Options.volumeThreshold d)
               (CircuitBreakerOptions.volumeThreshold opts)\<rparr>)"

text \<open>\<^verbatim>\<open>options?.f ?? d\<close>, as the constructor's log line reads a property.\<close>

definition nullish_property ::
  "CircuitBreakerOptions option \<Rightarrow> (CircuitBreakerOptions \<Rightarrow> optional_number) \<Rightarrow> int option \<Rightarrow> int option" where
  "nullish_property options f d =
     (case options of
        None \<Rightarrow> d
      | Some opts \<Rightarrow> (case f opts of Value v \<Rightarrow> Some v | Absent \<Rightarrow> d | Undefined \<Rightarrow> d))"

datatype CircuitState = Closed | Open | HalfOpen

text \<open>The library object: the options it was built with and its current state.\<close>

record CircuitBreaker =
  options :: Options
  state :: CircuitState

record CircuitBreakerProvider =
  provider :: LLMProvider
  providerName :: string
  breaker :: CircuitBreaker

datatype breaker_event =
    CircuitStateGauge string nat
  | CircuitEventCounter string string
  | BreakerWarn string string
  | BreakerLog string string
  | InitializedLog string "int option" "int option"
  | WrappedAnalyzeCall "string option" string "string option"

text \<open>The handlers \<^verbatim>\<open>setupEventHandlers\<close> registers, each as the events it produces.\<close>

definition on_open :: "string \<Rightarrow> breaker_event list" where
  "on_open name =
     [CircuitStateGauge name 1, CircuitEventCounter name ''open'',
      BreakerWarn ''Circuit OPENED - LLM provider failing'' name]"

definition on_close :: "string \<Rightarrow> breaker_event list" where
  "on_close name =
     [CircuitStateGauge name 0, CircuitEventCounter name ''close'',
      BreakerLog ''Circuit CLOSED - LLM provider recovered'' name]"

definition on_halfOpen :: "string \<Rightarrow> breaker_event list" where
  "on_halfOpen name =
     [CircuitStateGauge name 2, CircuitEventCounter name ''halfOpen'',
      BreakerLog ''Circuit HALF-OPEN - testing recovery'' name]"

definition on_timeout :: "string \<Rightarrow> breaker_event list" where
  "on_timeout name =
     [CircuitEventCounter name ''timeout'', BreakerWarn ''LLM request timed out'' name]"

text \<open>The function registered with \<^verbatim>\<open>breaker.fallback\<close>: its events and the value it returns.\<close>

definition fallback_handler :: "string \<Rightarrow> LLMAnalysisResult \<times> breaker_event list" where
  "fallback_handler name =
     (\<lparr>LLMAnalysisResult.summary =
         ''Analysis temporarily unavailable. The AI service is experiencing issues and will recover shortly.'',
       LLMAnalysisResult.confidence = ''low'',
       LLMAnalysisResult.reasoning = Some ''Circuit breaker active - LLM provider unavailable''\<rparr>,
      [CircuitEventCounter name ''fallback'',
       BreakerWarn ''Circuit breaker fallback triggered'' name])"

text \<open>The action the breaker wraps: \<^verbatim>\<open>(q, c, s) => this.provider.analyze(q, c, s)\<close>.\<close>

definition wrapped_action ::
  "LLMProvider \<Rightarrow> string option \<Rightarrow> string \<Rightarrow> string option \<Rightarrow>
     (error + LLMAnalysisResult) \<times> breaker_event list" where
  "wrapped_action p q c s = (analyze p q c s, [WrappedAnalyzeCall q c s])"

definition CircuitBreakerProvider_new ::
  "LLMProvider \<Rightarrow> CircuitBreakerOptions option \<Rightarrow> CircuitBreakerProvider \<times> breaker_event list" where
  "CircuitBreakerProvider_new p opts =
     (let name = getName p
      in (\<lparr>provider = p,
           providerName = name,
           breaker = \<lparr>options = spread_options defaults opts, state = Closed\<rparr>\<rparr>,
          [CircuitStateGauge name 0,
           InitializedLog name
             (nullish_property opts CircuitBreakerOptions.timeout (Options.timeout defaults))
             (nullish_property opts CircuitBreakerOptions.resetTimeout (Options.resetTimeout defaults))]))"

text \<open>
  Modelled from the spec: the circuit breaker library (opossum's \<^verbatim>\<open>CircuitBreaker\<close>, with
  \<^verbatim>\<open>fire\<close> and the flags \<^verbatim>\<open>opened\<close> and \<^verbatim>\<open>halfOpen\<close>) is not among the sources.
  The spec and the header of circuit-breaker.provider.ts give its states as closed
  (requests pass through), open (requests fail fast with the fallback) and half-open
  (a trial call is let through). The state after a call is computed by the library from
  its statistics and timers; \<open>CircuitBreaker_fire\<close> gives the outcome and the events of one
  call at a given state.
\<close>

definition opened :: "CircuitBreaker \<Rightarrow> bool" where
  "opened b \<longleftrightarrow> state b = Open"

definition halfOpen :: "CircuitBreaker \<Rightarrow> bool" where
  "halfOpen b \<longleftrightarrow> state b = HalfOpen"

definition CircuitBreaker_fire ::
  "CircuitBreaker \<Rightarrow>
   (string option \<Rightarrow> string \<Rightarrow> string option \<Rightarrow> (error + LLMAnalysisResult) \<times> breaker_event list) \<Rightarrow>
   LLMAnalysisResult \<times> breaker_event list \<Rightarrow>
   string option \<Rightarrow> string \<Rightarrow> string option \<Rightarrow>
   (error + LLMAnalysisResult) \<times> breaker_event list" where
  "CircuitBreaker_fire b action fallback q c s =
     (case state b of
        Open \<Rightarrow> (Inr (fst fallback), snd fallback)
      | Closed \<Rightarrow> action q c s
      | HalfOpen \<Rightarrow> action q c s)"

definition CircuitBreakerProvider_getName :: "CircuitBreakerProvider \<Rightarrow> string" where
  "CircuitBreakerProvider_getName cb = providerName cb"

definition CircuitBreakerProvider_analyze ::
  "CircuitBreakerProvider \<Rightarrow> string option \<Rightarrow> string \<Rightarrow> string option \<Rightarrow>
     (error + LLMAnalysisResult) \<times> breaker_event list" where
  "CircuitBreakerProvider_analyze cb q c s =
     CircuitBreaker_fire (breaker cb) (wrapped_action (provider cb))
       (fallback_handler (providerName cb)) q c s"

definition isOpen :: "CircuitBreakerProvider \<Rightarrow> bool" where
  "isOpen cb = opened (breaker cb)"

definition getState :: "CircuitBreakerProvider \<Rightarrow> string" where
  "getState cb =
     (if halfOpen (breaker cb) then ''half-open''
      else if opened (breaker cb) then ''open''
      else ''closed'')"

text \<open>\<^verbatim>\<open>haystack.includes(needle)\<close>, as the unit tests read the fallback text.\<close>

definition str_includes :: "string \<Rightarrow> string \<Rightarrow> bool" where
  "str_includes haystack needle = sublist needle haystack"

text \<open>The \<^verbatim>\<open>LLM_PROVIDER\<close> factory of agent.module.ts.\<close>

record ConfigService =
  LLM_PROVIDER :: "string option"
  LLM_TIMEOUT_MS :: "int option"
  LLM_CIRCUIT_RESET_MS :: "int option"

definition llm_provider_factory ::
  "ConfigService \<Rightarrow> LLMProvider \<Rightarrow> LLMProvider \<Rightarrow> CircuitBreakerProvider \<times> breaker_event list" where
  "llm_provider_factory config gemini bedrock =
     (let name = or_default_str (LLM_PROVIDER config) ''gemini'';
          baseProvider = (if name = ''bedrock'' then bedrock else gemini)
      in CircuitBreakerProvider_new baseProvider
           (Some \<lparr>CircuitBreakerOptions.timeout = Value (or_default (LLM_TIMEOUT_MS config) 30000),
                  CircuitBreakerOptions.errorThresholdPercentage = Absent,
                  CircuitBreakerOptions.resetTimeout =
                    Value (or_default (LLM_CIRCUIT_RESET_MS config) 30000),
                  CircuitBreakerOptions.volumeThreshold = Absent\<rparr>))"

text \<open>The events by which the grounding verdict shows: its counter and its warning.\<close>

fun is_grounding_signal :: "event \<Rightarrow> bool" where
  "is_grounding_signal (GroundingCounter r) = True"
| "is_grounding_signal (GroundingWarn sc rs) = True"
| "is_grounding_signal ev = False"

section \<open>Example values\<close>

text \<open>
  A small service on which the theorems below are instantiated. A hit is the text of its
  own status note or region. The example guardrails normalise whitespace and reject a
  question shorter than three characters, as the spec describes the input validator.
\<close>

fun split_words :: "string \<Rightarrow> string \<Rightarrow> string list" where
  "split_words w [] = (if w = [] then [] else [w])"
| "split_words w (c # cs) =
     (if c = CHR '' '' then (if w = [] then split_words [] cs else w # split_words [] cs)
      else split_words (w @ [c]) cs)"

fun join_words :: "string list \<Rightarrow> string" where
  "join_words [] = []"
| "join_words [w] = w"
| "join_words (w # ws) = w @ '' '' @ join_words ws"

definition example_preProcess :: "string \<Rightarrow> string \<Rightarrow> PreProcessResult" where
  "example_preProcess q uid =
     (let sanitized = join_words (split_words [] q)
      in if length sanitized < 3
         then \<lparr>allowed = False, sanitizedQuestion = None, error = Some ''Question is too short''\<rparr>
         else \<lparr>allowed = True, sanitizedQuestion = Some sanitized, error = None\<rparr>)"

definition example_guardrails :: GuardrailsService where
  "example_guardrails =
     \<lparr>preProcess = example_preProcess,
      postProcess =
        (\<lambda>r uid. Inr (GuardrailsService_postProcess 10 ''Unable to provide a reliable analysis.'' r uid)),
      handleError =
        (\<lambda>e uid. \<lparr>LLMAnalysisResult.summary = ''Analysis could not be completed.'',
                   LLMAnalysisResult.confidence = ''low'',
                   LLMAnalysisResult.reasoning = Some ''An error occurred during analysis''\<rparr>)\<rparr>"

definition example_provider :: LLMProvider where
  "example_provider =
     \<lparr>getName = ''gemini'',
      analyze =
        (\<lambda>q c s. Inr \<lparr>LLMAnalysisResult.summary = ''Cancellations cluster in the Southeast region.'',
                       LLMAnalysisResult.confidence = ''medium'',
                       LLMAnalysisResult.reasoning = Some ''Based on the status distribution''\<rparr>)\<rparr>"

definition failing_provider :: LLMProvider where
  "failing_provider =
     \<lparr>getName = ''gemini'', analyze = (\<lambda>q c s. Inl (Error (Some ''Provider error'')))\<rparr>"

definition example_runtime :: "string Runtime" where
  "example_runtime =
     \<lparr>status_notes = (\<lambda>r. Some r),
      region = (\<lambda>r. Some r),
      stringifyCounts = (\<lambda>kvs. concat (map (\<lambda>(k, n). k @ '':'' @ number_to_string n @ '';'') kvs)),
      stringifyRecords = (\<lambda>rs. concat (map (\<lambda>r. r @ '';'') rs)),
      now = ''2025-01-01T00:00:00.000Z''\<rparr>"

definition example_service :: "string AgentService" where
  "example_service =
     \<lparr>llmProvider = example_provider,
      membershipSearch = (\<lambda>n u. Inr [''active member'', ''cancelled in 2024'', ''active'']),
      locationsSearch = (\<lambda>n u. Inr [''Southeast'', ''Midwest'']),
      redactionService = (\<lambda>t. Inr (filter (\<lambda>ch. ch \<notin> set ''0123456789'') t)),
      guardrails = example_guardrails,
      grounding = (\<lambda>c sm. Inr \<lparr>grounded = True, score = 1, reason = None\<rparr>),
      runtime = example_runtime,
      locationsSettleFirst = False\<rparr>"

definition example_user :: AuthenticatedUser where
  "example_user =
     \<lparr>userId = ''test-auditor-1'', role = ''auditor'', tenantId = ''rcm-internal'',
      tenantType = ''internal''\<rparr>"

definition example_request :: AnalyzeRequest where
  "example_request =
     \<lparr>AnalyzeRequest.question = ''  Why are   dropout rates high? '', locationId = None, limit = None\<rparr>"

definition short_request :: AnalyzeRequest where
  "short_request = \<lparr>AnalyzeRequest.question = ''Hi'', locationId = None, limit = None\<rparr>"

definition failing_service :: "string AgentService" where
  "failing_service = example_service\<lparr>llmProvider := failing_provider\<rparr>"

definition ungrounded_service :: "string AgentService" where
  "ungrounded_service =
     example_service
       \<lparr>grounding :=
          (\<lambda>c sm. Inr \<lparr>grounded = False, score = 1 / 5, reason = Some ''Low overlap with context''\<rparr>)\<rparr>"

definition open_breaker_provider :: CircuitBreakerProvider where
  "open_breaker_provider =
     \<lparr>provider = example_provider,
      providerName = ''gemini'',
      breaker = \<lparr>options = defaults, state = Open\<rparr>\<rparr>"

section \<open>Runs of the example service\<close>

lemma example_preProcess_short:
  "example_preProcess ''Hi'' uid =
     \<lparr>allowed = False, sanitizedQuestion = None, error = Some ''Question is too short''\<rparr>"
  by (simp add: example_preProcess_def)

lemma example_preProcess_valid:
  "example_preProcess ''  Why are   dropout rates high? '' uid =
     \<lparr>allowed = True, sanitizedQuestion = Some ''Why are dropout rates high?'', error = None\<rparr>"
  by (simp add: example_preProcess_def)

lemma example_request_allowed:
  "allowed (preProcess (guardrails example_service) (AnalyzeRequest.question example_request)
     (userId example_user))"
  by (simp add: example_service_def example_guardrails_def example_request_def
      example_preProcess_valid)

lemma short_request_rejected:
  "\<not> allowed (preProcess (guardrails example_service) (AnalyzeRequest.question short_request)
     (userId example_user))"
  by (simp add: example_service_def example_guardrails_def short_request_def
      example_preProcess_short)

lemma example_run:
  "fst (AgentService_analyze example_service example_request example_user) =
     Inr \<lparr>Insight.question = ''  Why are   dropout rates high? '',
          summary = ''Cancellations cluster in the Southeast region.'',
          confidence = ''medium'',
          reasoning = Some ''Based on the status distribution'',
          dataPoints = \<lparr>membersAnalyzed = 3, locationsAnalyzed = 2\<rparr>,
          generatedAt = ''2025-01-01T00:00:00.000Z'',
          provider = ''gemini''\<rparr>"
  by code_simp

lemma example_provider_call:
  "ProviderAnalyzeCall (Some ''Why are dropout rates high?'')
     (filter (\<lambda>ch. ch \<notin> set ''0123456789'')
        (buildContext example_runtime [''active member'', ''cancelled in 2024'', ''active'']
           [''Southeast'', ''Midwest''] example_request))
     None
   \<in> set (snd (AgentService_analyze example_service example_request example_user))"
  by code_simp

section \<open>The guardrail gate before the model call\<close>

text \<open>
  C1. The provider's \<^verbatim>\<open>analyze\<close> is called only on a run where \<^verbatim>\<open>preProcess\<close>
  returned \<^verbatim>\<open>allowed == true\<close>; on a run where it returned \<^verbatim>\<open>allowed == false\<close>
  no call to the provider's \<^verbatim>\<open>analyze\<close> is made. (\<^verbatim>\<open>getName\<close> is read in both.)
\<close>

theorem provider_called_only_if_allowed:
  "(ProviderAnalyzeCall q c s \<in> set (snd (AgentService_analyze svc request user)) \<longrightarrow>
      allowed (preProcess (guardrails svc) (AnalyzeRequest.question request) (userId user))) \<and>
   (\<not> allowed (preProcess (guardrails svc) (AnalyzeRequest.question request) (userId user)) \<longrightarrow>
      (\<forall>q' c' s'. ProviderAnalyzeCall q' c' s' \<notin> set (snd (AgentService_analyze svc request user))))"
  by (auto simp: AgentService_analyze_def Let_def)

theorem provider_called_only_if_allowed_witness:
  "(\<exists>c. ProviderAnalyzeCall (Some ''Why are dropout rates high?'') c None
          \<in> set (snd (AgentService_analyze example_service example_request example_user))) \<and>
   allowed (preProcess (guardrails example_service) (AnalyzeRequest.question example_request)
      (userId example_user)) \<and>
   \<not> allowed (preProcess (guardrails example_service) (AnalyzeRequest.question short_request)
        (userId example_user)) \<and>
   (\<forall>q' c' s'. ProviderAnalyzeCall q' c' s' \<notin>
        set (snd (AgentService_analyze example_service short_request example_user)))"
proof -
  let ?redacted =
    "filter (\<lambda>ch. ch \<notin> set ''0123456789'')
       (buildContext example_runtime [''active member'', ''cancelled in 2024'', ''active'']
          [''Southeast'', ''Midwest''] example_request)"
  from example_provider_call
    provider_called_only_if_allowed
      [of "Some ''Why are dropout rates high?''" ?redacted None example_service example_request
        example_user]
  have "allowed (preProcess (guardrails example_service) (AnalyzeRequest.question example_request)
      (userId example_user))"
    by blast
  moreover from short_request_rejected
    provider_called_only_if_allowed [of None "[]" None example_service short_request example_user]
  have "\<forall>q' c' s'. ProviderAnalyzeCall q' c' s' \<notin>
        set (snd (AgentService_analyze example_service short_request example_user))"
    by blast
  ultimately show ?thesis
    using example_provider_call short_request_rejected by blast
qed

text \<open>
  C5. When \<^verbatim>\<open>preProcess\<close> rejects the question, \<^verbatim>\<open>analyze\<close> throws the plain
  \<^verbatim>\<open>Error\<close> whose message is the rejection reason: it returns no Insight, what it throws
  carries no status of its own, and the caller's request is answered with status 500.
\<close>

theorem rejected_question_raises_generic_error:
  assumes "\<not> allowed (preProcess (guardrails svc) (AnalyzeRequest.question request) (userId user))"
  shows "fst (AgentService_analyze svc request user) =
           Inl (Error (error (preProcess (guardrails svc) (AnalyzeRequest.question request)
                  (userId user)))) \<and>
         (\<forall>i. fst (AgentService_analyze svc request user) \<noteq> Inr i) \<and>
         (\<forall>st msg. fst (AgentService_analyze svc request user) \<noteq> Inl (HttpException st msg)) \<and>
         http_status (fst (AgentService_analyze svc request user)) = 500"
  using assms
  by (auto simp: AgentService_analyze_def Let_def http_status_def)

theorem rejected_question_raises_generic_error_witness:
  "\<not> allowed (preProcess (guardrails example_service) (AnalyzeRequest.question short_request)
        (userId example_user)) \<and>
   fst (AgentService_analyze example_service short_request example_user) =
     Inl (Error (Some ''Question is too short'')) \<and>
   http_status (fst (AgentService_analyze example_service short_request example_user)) = 500"
proof -
  have message:
    "error (preProcess (guardrails example_service) (AnalyzeRequest.question short_request)
        (userId example_user)) = Some ''Question is too short''"
    by (simp add: example_service_def example_guardrails_def short_request_def
        example_preProcess_short)
  from rejected_question_raises_generic_error [OF short_request_rejected] message
    short_request_rejected
  show ?thesis by (simp add: http_status_def)
qed

section \<open>What the provider receives\<close>

lemma try_provider_calls:
  "analyze_try svc request user sq pn = (r, t) \<Longrightarrow> ProviderAnalyzeCall q c s \<in> set t \<Longrightarrow>
   q = sq \<and> s = None \<and>
   (\<exists>members locations.
      membershipSearch svc (or_default (limit request) 100) user = Inr members \<and>
      locationsSearch svc (or_default (limit request) 50) user = Inr locations \<and>
      redactionService svc (buildContext (runtime svc) members locations request) = Inr c)"
  by (auto simp: analyze_try_def Let_def promise_all_def
      split: sum.splits prod.splits option.splits if_splits)

lemma try_question:
  "analyze_try svc request user sq pn = (Inr i, t) \<Longrightarrow>
   Insight.question i = AnalyzeRequest.question request"
  by (auto simp: analyze_try_def Let_def split: sum.splits prod.splits option.splits)

text \<open>
  C9. For an allowed request, the Insight returned (from the \<^verbatim>\<open>try\<close> block or from the
  \<^verbatim>\<open>catch\<close> block) carries the raw \<^verbatim>\<open>request.question\<close>, while every call of the
  provider's \<^verbatim>\<open>analyze\<close> is made with the \<^verbatim>\<open>sanitizedQuestion\<close> of \<^verbatim>\<open>preProcess\<close>.
  The witness is a run where the two differ in whitespace.
\<close>

theorem insight_keeps_raw_question:
  assumes "allowed (preProcess (guardrails svc) (AnalyzeRequest.question request) (userId user))"
  shows "(\<exists>i. fst (AgentService_analyze svc request user) = Inr i \<and>
              Insight.question i = AnalyzeRequest.question request) \<and>
         (\<forall>q c s. ProviderAnalyzeCall q c s \<in> set (snd (AgentService_analyze svc request user)) \<longrightarrow>
              q = sanitizedQuestion
                    (preProcess (guardrails svc) (AnalyzeRequest.question request) (userId user)))"
  using assms
  by (auto simp: AgentService_analyze_def fallback_insight_def Let_def
      split: sum.splits prod.splits dest: try_provider_calls try_question)

theorem insight_keeps_raw_question_witness:
  "allowed (preProcess (guardrails example_service) (AnalyzeRequest.question example_request)
      (userId example_user)) \<and>
   (\<exists>i. fst (AgentService_analyze example_service example_request example_user) = Inr i \<and>
        Insight.question i = ''  Why are   dropout rates high? '') \<and>
   (\<exists>c. ProviderAnalyzeCall (Some ''Why are dropout rates high?'') c None
          \<in> set (snd (AgentService_analyze example_service example_request example_user))) \<and>
   sanitizedQuestion (preProcess (guardrails example_service)
      (AnalyzeRequest.question example_request) (userId example_user)) =
     Some ''Why are dropout rates high?''"
proof -
  have raw: "AnalyzeRequest.question example_request = ''  Why are   dropout rates high? ''"
    by (simp add: example_request_def)
  have sanitized:
    "sanitizedQuestion (preProcess (guardrails example_service)
        (AnalyzeRequest.question example_request) (userId example_user)) =
       Some ''Why are dropout rates high?''"
    by (simp add: example_service_def example_guardrails_def example_request_def
        example_preProcess_valid)
  from insight_keeps_raw_question [OF example_request_allowed] raw
  have "\<exists>i. fst (AgentService_analyze example_service example_request example_user) = Inr i \<and>
            Insight.question i = ''  Why are   dropout rates high? ''"
    by simp
  with example_request_allowed example_provider_call sanitized show ?thesis
    by blast
qed

text \<open>
  C10. Whenever the provider's \<^verbatim>\<open>analyze\<close> is called, its context argument is the value
  the redaction service returned for \<^verbatim>\<open>buildContext(members, locations, request)\<close>,
  \<^verbatim>\<open>members\<close> and \<^verbatim>\<open>locations\<close> being what the two searches returned. The unredacted
  context is passed to the redaction service only.
\<close>

theorem provider_receives_redacted_context:
  assumes "ProviderAnalyzeCall q c s \<in> set (snd (AgentService_analyze svc request user))"
  shows "\<exists>members locations.
           membershipSearch svc (or_default (limit request) 100) user = Inr members \<and>
           locationsSearch svc (or_default (limit request) 50) user = Inr locations \<and>
           redactionService svc (buildContext (runtime svc) members locations request) = Inr c"
  using assms
  by (auto simp: AgentService_analyze_def Let_def split: sum.splits prod.splits if_splits
      dest: try_provider_calls)

theorem provider_receives_redacted_context_witness:
  "ProviderAnalyzeCall (Some ''Why are dropout rates high?'')
     (filter (\<lambda>ch. ch \<notin> set ''0123456789'')
        (buildContext example_runtime [''active member'', ''cancelled in 2024'', ''active'']
           [''Southeast'', ''Midwest''] example_request))
     None
     \<in> set (snd (AgentService_analyze example_service example_request example_user)) \<and>
   (\<exists>members locations.
      membershipSearch example_service (or_default (limit example_request) 100) example_user =
        Inr members \<and>
      locationsSearch example_service (or_default (limit example_request) 50) example_user =
        Inr locations \<and>
      redactionService example_service
        (buildContext (runtime example_service) members locations example_request) =
        Inr (filter (\<lambda>ch. ch \<notin> set ''0123456789'')
               (buildContext example_runtime [''active member'', ''cancelled in 2024'', ''active'']
                  [''Southeast'', ''Midwest''] example_request)))"
  using example_provider_call provider_receives_redacted_context [OF example_provider_call]
  by blast

section \<open>Failures inside the try block\<close>

text \<open>
  Each step of the \<^verbatim>\<open>try\<close> block that fails makes the block throw: a rejected search,
  the redaction, the model call, the grounding check and the post-processing.
\<close>

lemma try_throws_on_search:
  "membershipSearch svc (or_default (limit request) 100) user = Inl e \<or>
   locationsSearch svc (or_default (limit request) 50) user = Inl e \<Longrightarrow>
   \<exists>e'. fst (analyze_try svc request user sq pn) = Inl e'"
  by (auto simp: analyze_try_def promise_all_def Let_def split: sum.splits)

lemma try_throws_on_redaction:
  "membershipSearch svc (or_default (limit request) 100) user = Inr members \<Longrightarrow>
   locationsSearch svc (or_default (limit request) 50) user = Inr locations \<Longrightarrow>
   redactionService svc (buildContext (runtime svc) members locations request) = Inl e \<Longrightarrow>
   fst (analyze_try svc request user sq pn) = Inl e"
  by (simp add: analyze_try_def promise_all_def Let_def)

lemma try_throws_on_model_call:
  "membershipSearch svc (or_default (limit request) 100) user = Inr members \<Longrightarrow>
   locationsSearch svc (or_default (limit request) 50) user = Inr locations \<Longrightarrow>
   redactionService svc (buildContext (runtime svc) members locations request) = Inr rc \<Longrightarrow>
   analyze (llmProvider svc) sq rc None = Inl e \<Longrightarrow>
   fst (analyze_try svc request user sq pn) = Inl e"
  by (simp add: analyze_try_def promise_all_def Let_def)

lemma try_throws_on_grounding:
  "membershipSearch svc (or_default (limit request) 100) user = Inr members \<Longrightarrow>
   locationsSearch svc (or_default (limit request) 50) user = Inr locations \<Longrightarrow>
   redactionService svc (buildContext (runtime svc) members locations request) = Inr rc \<Longrightarrow>
   analyze (llmProvider svc) sq rc None = Inr r \<Longrightarrow>
   grounding svc rc (LLMAnalysisResult.summary r) = Inl e \<Longrightarrow>
   fst (analyze_try svc request user sq pn) = Inl e"
  by (simp add: analyze_try_def promise_all_def Let_def)

lemma try_throws_on_postProcess:
  "membershipSearch svc (or_default (limit request) 100) user = Inr members \<Longrightarrow>
   locationsSearch svc (or_default (limit request) 50) user = Inr locations \<Longrightarrow>
   redactionService svc (buildContext (runtime svc) members locations request) = Inr rc \<Longrightarrow>
   analyze (llmProvider svc) sq rc None = Inr r \<Longrightarrow>
   grounding svc rc (LLMAnalysisResult.summary r) = Inr g \<Longrightarrow>
   postProcess (guardrails svc) r (userId user) = Inl e \<Longrightarrow>
   fst (analyze_try svc request user sq pn) = Inl e"
  by (simp add: analyze_try_def promise_all_def Let_def)

lemma try_throws_on_missing_response:
  "membershipSearch svc (or_default (limit request) 100) user = Inr members \<Longrightarrow>
   locationsSearch svc (or_default (limit request) 50) user = Inr locations \<Longrightarrow>
   redactionService svc (buildContext (runtime svc) members locations request) = Inr rc \<Longrightarrow>
   analyze (llmProvider svc) sq rc None = Inr r \<Longrightarrow>
   grounding svc rc (LLMAnalysisResult.summary r) = Inr g \<Longrightarrow>
   postProcess (guardrails svc) r (userId user) = Inr pr \<Longrightarrow>
   response pr = None \<Longrightarrow>
   \<exists>msg. fst (analyze_try svc request user sq pn) = Inl (TypeError msg)"
  by (simp add: analyze_try_def promise_all_def Let_def)

lemma failing_service_allowed:
  "allowed (preProcess (guardrails failing_service) (AnalyzeRequest.question example_request)
     (userId example_user))"
  by (simp add: failing_service_def example_service_def example_guardrails_def example_request_def
      example_preProcess_valid)

lemma failing_service_try:
  "fst (analyze_try failing_service example_request example_user
          (sanitizedQuestion (preProcess (guardrails failing_service)
             (AnalyzeRequest.question example_request) (userId example_user)))
          (getName (llmProvider failing_service))) =
     Inl (Error (Some ''Provider error''))"
  by code_simp

text \<open>
  C4. Once \<^verbatim>\<open>preProcess\<close> has allowed the request, \<^verbatim>\<open>analyze\<close> returns an Insight and
  throws nothing; and when the \<^verbatim>\<open>try\<close> block throws \<open>e\<close> (from the context fetch, the
  redaction, the model call, the grounding check or the post-processing), the Insight
  returned has the summary, confidence and reasoning of \<^verbatim>\<open>handleError(e, userId)\<close> and
  \<^verbatim>\<open>dataPoints\<close> equal to \<^verbatim>\<open>{ membersAnalyzed: 0, locationsAnalyzed: 0 }\<close>.
\<close>

theorem analyze_returns_fallback_on_error:
  assumes "allowed (preProcess (guardrails svc) (AnalyzeRequest.question request) (userId user))"
  shows "(\<exists>i. fst (AgentService_analyze svc request user) = Inr i) \<and>
         (\<forall>e. fst (analyze_try svc request user
                  (sanitizedQuestion
                     (preProcess (guardrails svc) (AnalyzeRequest.question request) (userId user)))
                  (getName (llmProvider svc))) = Inl e \<longrightarrow>
              fst (AgentService_analyze svc request user) =
                Inr \<lparr>question = AnalyzeRequest.question request,
                     summary = LLMAnalysisResult.summary (handleError (guardrails svc) e (userId user)),
                     confidence =
                       LLMAnalysisResult.confidence (handleError (guardrails svc) e (userId user)),
                     reasoning =
                       LLMAnalysisResult.reasoning (handleError (guardrails svc) e (userId user)),
                     dataPoints = \<lparr>membersAnalyzed = 0, locationsAnalyzed = 0\<rparr>,
                     generatedAt = now (runtime svc),
                     provider = getName (llmProvider svc)\<rparr>)"
  using assms
  by (auto simp: AgentService_analyze_def fallback_insight_def Let_def
      split: sum.splits prod.splits)

theorem analyze_returns_fallback_on_error_witness:
  "allowed (preProcess (guardrails failing_service) (AnalyzeRequest.question example_request)
      (userId example_user)) \<and>
   analyze (llmProvider failing_service) (Some ''Why are dropout rates high?'') ''context'' None =
     Inl (Error (Some ''Provider error'')) \<and>
   fst (AgentService_analyze failing_service example_request example_user) =
     Inr \<lparr>question = ''  Why are   dropout rates high? '',
          summary = ''Analysis could not be completed.'',
          confidence = ''low'',
          reasoning = Some ''An error occurred during analysis'',
          dataPoints = \<lparr>membersAnalyzed = 0, locationsAnalyzed = 0\<rparr>,
          generatedAt = ''2025-01-01T00:00:00.000Z'',
          provider = ''gemini''\<rparr>"
proof -
  have fails:
    "analyze (llmProvider failing_service) (Some ''Why are dropout rates high?'') ''context'' None =
       Inl (Error (Some ''Provider error''))"
    by (simp add: failing_service_def failing_provider_def)
  have fallback:
    "handleError (guardrails failing_service) (Error (Some ''Provider error'')) (userId example_user) =
       \<lparr>LLMAnalysisResult.summary = ''Analysis could not be completed.'',
        LLMAnalysisResult.confidence = ''low'',
        LLMAnalysisResult.reasoning = Some ''An error occurred during analysis''\<rparr>"
    by (simp add: failing_service_def example_service_def example_guardrails_def)
  have fields:
    "AnalyzeRequest.question example_request = ''  Why are   dropout rates high? ''"
    "now (runtime failing_service) = ''2025-01-01T00:00:00.000Z''"
    "getName (llmProvider failing_service) = ''gemini''"
    by (simp_all add: example_request_def failing_service_def example_service_def
        example_runtime_def failing_provider_def)
  from analyze_returns_fallback_on_error [OF failing_service_allowed] failing_service_try
  have "fst (AgentService_analyze failing_service example_request example_user) =
     Inr \<lparr>question = AnalyzeRequest.question example_request,
          summary = LLMAnalysisResult.summary
            (handleError (guardrails failing_service) (Error (Some ''Provider error''))
               (userId example_user)),
          confidence = LLMAnalysisResult.confidence
            (handleError (guardrails failing_service) (Error (Some ''Provider error''))
               (userId example_user)),
          reasoning = LLMAnalysisResult.reasoning
            (handleError (guardrails failing_service) (Error (Some ''Provider error''))
               (userId example_user)),
          dataPoints = \<lparr>membersAnalyzed = 0, locationsAnalyzed = 0\<rparr>,
          generatedAt = now (runtime failing_service),
          provider = getName (llmProvider failing_service)\<rparr>"
    by blast
  then show ?thesis
    using failing_service_allowed fails by (simp add: fallback fields)
qed

section \<open>Grounding is advisory\<close>

lemma try_grounding_independent:
  assumes "grounding svc1 = (\<lambda>c sm. Inr (g1 c sm))"
    and "svc2 = svc1\<lparr>grounding := (\<lambda>c sm. Inr (g2 c sm))\<rparr>"
  shows "fst (analyze_try svc1 request user sq pn) = fst (analyze_try svc2 request user sq pn) \<and>
     filter (\<lambda>ev. \<not> is_grounding_signal ev) (snd (analyze_try svc1 request user sq pn)) =
     filter (\<lambda>ev. \<not> is_grounding_signal ev) (snd (analyze_try svc2 request user sq pn))"
  using assms
  by (auto simp: analyze_try_def Let_def split: sum.splits prod.splits option.splits)

text \<open>
  C6. Two runs of \<^verbatim>\<open>analyze\<close> that differ only in the \<^verbatim>\<open>GroundingResult\<close> the grounding
  check returns (any \<^verbatim>\<open>grounded\<close>, \<^verbatim>\<open>score\<close> and \<^verbatim>\<open>reason\<close>) return the same outcome,
  and their event traces are equal once the grounding counter and the grounding warning
  are left out: the verdict is counted and logged, nothing else.
\<close>

theorem grounding_verdict_is_advisory:
  assumes "grounding svc1 = (\<lambda>c sm. Inr (g1 c sm))"
    and "svc2 = svc1\<lparr>grounding := (\<lambda>c sm. Inr (g2 c sm))\<rparr>"
  shows "fst (AgentService_analyze svc1 request user) = fst (AgentService_analyze svc2 request user) \<and>
     filter (\<lambda>ev. \<not> is_grounding_signal ev) (snd (AgentService_analyze svc1 request user)) =
     filter (\<lambda>ev. \<not> is_grounding_signal ev) (snd (AgentService_analyze svc2 request user))"
proof -
  let ?sq = "sanitizedQuestion
     (preProcess (guardrails svc1) (AnalyzeRequest.question request) (userId user))"
  let ?pn = "getName (llmProvider svc1)"
  have try_block:
    "fst (analyze_try svc1 request user ?sq ?pn) = fst (analyze_try svc2 request user ?sq ?pn) \<and>
     filter (\<lambda>ev. \<not> is_grounding_signal ev) (snd (analyze_try svc1 request user ?sq ?pn)) =
     filter (\<lambda>ev. \<not> is_grounding_signal ev) (snd (analyze_try svc2 request user ?sq ?pn))"
    using try_grounding_independent [OF assms] by blast
  have same:
    "guardrails svc2 = guardrails svc1" "llmProvider svc2 = llmProvider svc1"
    "runtime svc2 = runtime svc1"
    using assms(2) by simp_all
  show ?thesis
    using try_block
    by (auto simp: AgentService_analyze_def fallback_insight_def Let_def same
        split: sum.splits prod.splits)
qed

theorem grounding_verdict_is_advisory_witness:
  "grounding example_service = (\<lambda>c sm. Inr \<lparr>grounded = True, score = 1, reason = None\<rparr>) \<and>
   ungrounded_service =
     example_service
       \<lparr>grounding :=
          (\<lambda>c sm. Inr \<lparr>grounded = False, score = 1 / 5, reason = Some ''Low overlap with context''\<rparr>)\<rparr> \<and>
   fst (AgentService_analyze example_service example_request example_user) =
     fst (AgentService_analyze ungrounded_service example_request example_user)"
proof -
  have first: "grounding example_service = (\<lambda>c sm. Inr \<lparr>grounded = True, score = 1, reason = None\<rparr>)"
    by (simp add: example_service_def)
  have second:
    "ungrounded_service =
       example_service
         \<lparr>grounding :=
            (\<lambda>c sm. Inr \<lparr>grounded = False, score = 1 / 5,
                          reason = Some ''Low overlap with context''\<rparr>)\<rparr>"
    by (simp add: ungrounded_service_def)
  from grounding_verdict_is_advisory [OF first second, of example_request example_user]
    first second
  show ?thesis by blast
qed

section \<open>The successful path\<close>

text \<open>
  C7. On the path where the question is allowed and every step of the \<^verbatim>\<open>try\<close> block
  succeeds, with \<^verbatim>\<open>postProcess\<close> being the guardrails' output validation, the Insight
  returned has a confidence among \<^verbatim>\<open>high\<close>, \<^verbatim>\<open>medium\<close>, \<^verbatim>\<open>low\<close>, and its
  \<^verbatim>\<open>membersAnalyzed\<close> and \<^verbatim>\<open>locationsAnalyzed\<close> are the lengths of the arrays the
  membership search and the locations search returned.
\<close>

theorem successful_insight_counts_records:
  assumes "allowed (preProcess (guardrails svc) (AnalyzeRequest.question request) (userId user))"
    and "membershipSearch svc (or_default (limit request) 100) user = Inr members"
    and "locationsSearch svc (or_default (limit request) 50) user = Inr locations"
    and "redactionService svc (buildContext (runtime svc) members locations request) =
           Inr redactedContext"
    and "analyze (llmProvider svc)
           (sanitizedQuestion
              (preProcess (guardrails svc) (AnalyzeRequest.question request) (userId user)))
           redactedContext None = Inr llmResult"
    and "grounding svc redactedContext (LLMAnalysisResult.summary llmResult) = Inr groundingResult"
    and "postProcess (guardrails svc) llmResult (userId user) =
           Inr (GuardrailsService_postProcess minLength fallbackSummary llmResult (userId user))"
  shows "\<exists>i. fst (AgentService_analyze svc request user) = Inr i \<and>
             Insight.confidence i \<in> {''high'', ''medium'', ''low''} \<and>
             membersAnalyzed (dataPoints i) = length members \<and>
             locationsAnalyzed (dataPoints i) = length locations"
  using assms
  by (auto simp: AgentService_analyze_def analyze_try_def promise_all_def Let_def
      GuardrailsService_postProcess_def OutputValidator_validate_def)

theorem successful_insight_counts_records_witness:
  "allowed (preProcess (guardrails example_service) (AnalyzeRequest.question example_request)
      (userId example_user)) \<and>
   membershipSearch example_service (or_default (limit example_request) 100) example_user =
     Inr [''active member'', ''cancelled in 2024'', ''active''] \<and>
   locationsSearch example_service (or_default (limit example_request) 50) example_user =
     Inr [''Southeast'', ''Midwest''] \<and>
   (\<exists>i. fst (AgentService_analyze example_service example_request example_user) = Inr i \<and>
        Insight.confidence i \<in> {''high'', ''medium'', ''low''} \<and>
        membersAnalyzed (dataPoints i) = 3 \<and>
        locationsAnalyzed (dataPoints i) = 2)"
proof -
  let ?members = "[''active member'', ''cancelled in 2024'', ''active'']"
  let ?locations = "[''Southeast'', ''Midwest'']"
  let ?redacted =
    "filter (\<lambda>ch. ch \<notin> set ''0123456789'')
       (buildContext (runtime example_service) ?members ?locations example_request)"
  let ?result =
    "\<lparr>LLMAnalysisResult.summary = ''Cancellations cluster in the Southeast region.'',
      LLMAnalysisResult.confidence = ''medium'',
      LLMAnalysisResult.reasoning = Some ''Based on the status distribution''\<rparr>"
  have members:
    "membershipSearch example_service (or_default (limit example_request) 100) example_user =
       Inr ?members"
    by (simp add: example_service_def)
  have locations:
    "locationsSearch example_service (or_default (limit example_request) 50) example_user =
       Inr ?locations"
    by (simp add: example_service_def)
  have redacted:
    "redactionService example_service
       (buildContext (runtime example_service) ?members ?locations example_request) = Inr ?redacted"
    by (simp add: example_service_def)
  have answered:
    "analyze (llmProvider example_service)
       (sanitizedQuestion (preProcess (guardrails example_service)
          (AnalyzeRequest.question example_request) (userId example_user)))
       ?redacted None = Inr ?result"
    by (simp add: example_service_def example_provider_def)
  have grounded:
    "grounding example_service ?redacted (LLMAnalysisResult.summary ?result) =
       Inr \<lparr>grounded = True, score = 1, reason = None\<rparr>"
    by (simp add: example_service_def)
  have validated:
    "postProcess (guardrails example_service) ?result (userId example_user) =
       Inr (GuardrailsService_postProcess 10 ''Unable to provide a reliable analysis.'' ?result
              (userId example_user))"
    by (simp add: example_service_def example_guardrails_def)
  from successful_insight_counts_records
         [OF example_request_allowed members locations redacted answered grounded validated]
  have "\<exists>i. fst (AgentService_analyze example_service example_request example_user) = Inr i \<and>
            Insight.confidence i \<in> {''high'', ''medium'', ''low''} \<and>
            membersAnalyzed (dataPoints i) = length ?members \<and>
            locationsAnalyzed (dataPoints i) = length ?locations" .
  then have "\<exists>i. fst (AgentService_analyze example_service example_request example_user) = Inr i \<and>
            Insight.confidence i \<in> {''high'', ''medium'', ''low''} \<and>
            membersAnalyzed (dataPoints i) = 3 \<and>
            locationsAnalyzed (dataPoints i) = 2"
    by (simp add: numeral_3_eq_3 numeral_2_eq_2)
  with example_request_allowed members locations show ?thesis
    by blast
qed

section \<open>The circuit breaker\<close>

text \<open>
  C8. The defaults are \<^verbatim>\<open>timeout = 30000\<close>, \<^verbatim>\<open>errorThresholdPercentage = 50\<close>,
  \<^verbatim>\<open>resetTimeout = 30000\<close> and \<^verbatim>\<open>volumeThreshold = 3\<close>. Without an options object the
  breaker is built with the defaults; with one, each of the four properties the breaker
  is built with is the property of the options object where that has it, and the default
  where it is absent. (A property present with the value \<^verbatim>\<open>undefined\<close> is handed on as
  \<^verbatim>\<open>undefined\<close>: the spread copies it over the default.)
\<close>

theorem breaker_options_defaults_and_overrides:
  "defaults =
     \<lparr>timeout = Some 30000, errorThresholdPercentage = Some 50, resetTimeout = Some 30000,
      volumeThreshold = Some 3\<rparr> \<and>
   options (breaker (fst (CircuitBreakerProvider_new p None))) = defaults \<and>
   Options.timeout (options (breaker (fst (CircuitBreakerProvider_new p (Some opts))))) =
     (case CircuitBreakerOptions.timeout opts of
        Absent \<Rightarrow> Some 30000 | Undefined \<Rightarrow> None | Value v \<Rightarrow> Some v) \<and>
   Options.errorThresholdPercentage
       (options (breaker (fst (CircuitBreakerProvider_new p (Some opts))))) =
     (case CircuitBreakerOptions.errorThresholdPercentage opts of
        Absent \<Rightarrow> Some 50 | Undefined \<Rightarrow> None | Value v \<Rightarrow> Some v) \<and>
   Options.resetTimeout (options (breaker (fst (CircuitBreakerProvider_new p (Some opts))))) =
     (case CircuitBreakerOptions.resetTimeout opts of
        Absent \<Rightarrow> Some 30000 | Undefined \<Rightarrow> None | Value v \<Rightarrow> Some v) \<and>
   Options.volumeThreshold (options (breaker (fst (CircuitBreakerProvider_new p (Some opts))))) =
     (case CircuitBreakerOptions.volumeThreshold opts of
        Absent \<Rightarrow> Some 3 | Undefined \<Rightarrow> None | Value v \<Rightarrow> Some v)"
  by (simp add: CircuitBreakerProvider_new_def spread_options_def spread_property_def defaults_def
      Let_def split: optional_number.splits)

text \<open>
  The module's factory sets \<^verbatim>\<open>timeout\<close> and \<^verbatim>\<open>resetTimeout\<close> from the configuration
  (30000 when unset or zero) and leaves the other two at their defaults.
\<close>

lemma factory_options:
  "options (breaker (fst (llm_provider_factory config gemini bedrock))) =
     \<lparr>timeout = Some (or_default (LLM_TIMEOUT_MS config) 30000),
      errorThresholdPercentage = Some 50,
      resetTimeout = Some (or_default (LLM_CIRCUIT_RESET_MS config) 30000),
      volumeThreshold = Some 3\<rparr>"
  by (simp add: llm_provider_factory_def CircuitBreakerProvider_new_def spread_options_def
      spread_property_def defaults_def Let_def)

text \<open>The options of the unit tests: all four properties are given and all four are used.\<close>

lemma unit_test_options:
  "options (breaker (fst (CircuitBreakerProvider_new example_provider
      (Some \<lparr>CircuitBreakerOptions.timeout = Value 100,
             CircuitBreakerOptions.errorThresholdPercentage = Value 50,
             CircuitBreakerOptions.resetTimeout = Value 200,
             CircuitBreakerOptions.volumeThreshold = Value 2\<rparr>)))) =
     \<lparr>timeout = Some 100, errorThresholdPercentage = Some 50, resetTimeout = Some 200,
      volumeThreshold = Some 2\<rparr>"
  by (simp add: CircuitBreakerProvider_new_def spread_options_def spread_property_def Let_def)

text \<open>\<^verbatim>\<open>getState\<close> reports one of three names, and a new breaker is closed.\<close>

lemma getState_cases:
  "getState cb =
     (case state (breaker cb) of Closed \<Rightarrow> ''closed'' | Open \<Rightarrow> ''open'' | HalfOpen \<Rightarrow> ''half-open'')"
  by (simp add: getState_def opened_def halfOpen_def split: CircuitState.splits)

lemma new_breaker_closed:
  "getState (fst (CircuitBreakerProvider_new p opts)) = ''closed'' \<and>
   \<not> isOpen (fst (CircuitBreakerProvider_new p opts))"
  by (simp add: getState_def isOpen_def opened_def halfOpen_def CircuitBreakerProvider_new_def Let_def)

text \<open>
  C2. While the breaker is open, \<^verbatim>\<open>analyze\<close> makes no call to the wrapped provider and
  returns the fixed fallback result: an \<^verbatim>\<open>LLMAnalysisResult\<close> whose summary contains
  ``temporarily unavailable'', whose confidence is \<^verbatim>\<open>low\<close> and whose reasoning names the
  circuit breaker.
\<close>

theorem open_circuit_returns_fallback:
  assumes "isOpen cb"
  shows "fst (CircuitBreakerProvider_analyze cb q c s) =
           Inr \<lparr>LLMAnalysisResult.summary =
                  ''Analysis temporarily unavailable. The AI service is experiencing issues and will recover shortly.'',
                LLMAnalysisResult.confidence = ''low'',
                LLMAnalysisResult.reasoning =
                  Some ''Circuit breaker active - LLM provider unavailable''\<rparr> \<and>
         (\<forall>q' c' s'. WrappedAnalyzeCall q' c' s' \<notin>
              set (snd (CircuitBreakerProvider_analyze cb q c s))) \<and>
         (\<exists>r. fst (CircuitBreakerProvider_analyze cb q c s) = Inr r \<and>
              str_includes (LLMAnalysisResult.summary r) ''temporarily unavailable'' \<and>
              LLMAnalysisResult.confidence r = ''low'' \<and>
              (\<exists>t. LLMAnalysisResult.reasoning r = Some t \<and> str_includes t ''Circuit breaker''))"
  using assms
  by (simp add: isOpen_def opened_def CircuitBreakerProvider_analyze_def CircuitBreaker_fire_def
      fallback_handler_def str_includes_def sublist_code)

theorem open_circuit_returns_fallback_witness:
  "isOpen open_breaker_provider \<and>
   CircuitBreakerProvider_analyze open_breaker_provider (Some ''q'') ''c'' None =
     (Inr \<lparr>LLMAnalysisResult.summary =
             ''Analysis temporarily unavailable. The AI service is experiencing issues and will recover shortly.'',
           LLMAnalysisResult.confidence = ''low'',
           LLMAnalysisResult.reasoning =
             Some ''Circuit breaker active - LLM provider unavailable''\<rparr>,
      [CircuitEventCounter ''gemini'' ''fallback'',
       BreakerWarn ''Circuit breaker fallback triggered'' ''gemini''])"
proof -
  have is_open: "isOpen open_breaker_provider"
    by (simp add: isOpen_def opened_def open_breaker_provider_def)
  have events:
    "snd (CircuitBreakerProvider_analyze open_breaker_provider (Some ''q'') ''c'' None) =
       [CircuitEventCounter ''gemini'' ''fallback'',
        BreakerWarn ''Circuit breaker fallback triggered'' ''gemini'']"
    by (simp add: CircuitBreakerProvider_analyze_def CircuitBreaker_fire_def fallback_handler_def
        open_breaker_provider_def)
  from open_circuit_returns_fallback [OF is_open, of "Some ''q''" "''c''" None] is_open events
  show ?thesis
    by (simp add: prod_eq_iff)
qed

end
